theory Spec2Isabelle
  imports Complex_Main
begin

section \<open>Instant Site Analysis: a shallow embedding of app.py\<close>

text \<open>
  The program is a Streamlit script: every user interaction runs the whole file from top
  to bottom against the session state. Its three helper functions call the geocoding
  endpoint, the USGS catalog and the generative-language service. The embedding keeps
  the control flow of the script and takes the replies of these collaborators, and the
  few library routines whose results depend on floating-point text (parsing, printing,
  time conversion, CSV), from an environment record.
\<close>

subsection \<open>Python values\<close>

text \<open>
  A Python float. Finite values are carried as the exact rational they denote (a double
  is a dyadic rational); the two zeros are one value, as they are equal and both falsy
  in Python.
\<close>

datatype pyfloat = Finite rat | PosInf | NegInf | NaN

text \<open>
  What \<open>response.json()\<close> can return. A dict is an association list read with
  \<open>map_of\<close>.
\<close>

datatype pyval =
    PNone
  | PBool bool
  | PInt int
  | PFloat pyfloat
  | PStr string
  | PList "pyval list"
  | PDict "(string \<times> pyval) list"

text \<open>
  Exceptions. \<open>RequestException\<close> stands for the whole class
  \<open>requests.exceptions.RequestException\<close> (connection errors, timeouts,
  \<open>HTTPError\<close> from \<open>raise_for_status\<close>); the string is \<open>str(e)\<close>.
\<close>

datatype exn =
    RequestException string
  | KeyError string
  | AttributeError string
  | IndexError string
  | TypeError string
  | ValueError string
  | OverflowError string
  | FileNotFoundError string
  | OtherException string

fun exn_str :: "exn \<Rightarrow> string" where
  "exn_str (RequestException m) = m"
| "exn_str (KeyError m) = m"
| "exn_str (AttributeError m) = m"
| "exn_str (IndexError m) = m"
| "exn_str (TypeError m) = m"
| "exn_str (ValueError m) = m"
| "exn_str (OverflowError m) = m"
| "exn_str (FileNotFoundError m) = m"
| "exn_str (OtherException m) = m"

text \<open>Sequencing of fallible pure steps: the first exception wins.\<close>

fun bindE :: "exn + 'a \<Rightarrow> ('a \<Rightarrow> exn + 'b) \<Rightarrow> exn + 'b" where
  "bindE (Inl e) f = Inl e"
| "bindE (Inr a) f = f a"

text \<open>Truth value testing, as \<open>if x:\<close> does it.\<close>

fun truthy :: "pyval \<Rightarrow> bool" where
  "truthy PNone = False"
| "truthy (PBool b) = b"
| "truthy (PInt n) = (n \<noteq> 0)"
| "truthy (PFloat f) = (f \<noteq> Finite 0)"
| "truthy (PStr s) = (s \<noteq> [])"
| "truthy (PList xs) = (xs \<noteq> [])"
| "truthy (PDict kvs) = (kvs \<noteq> [])"

text \<open>\<open>x[i]\<close> for the literal indices 0 and 1 the program uses.\<close>

fun getitem_idx :: "pyval \<Rightarrow> nat \<Rightarrow> exn + pyval" where
  "getitem_idx (PList xs) i =
     (if i < length xs then Inr (xs ! i) else Inl (IndexError ''list index out of range''))"
| "getitem_idx (PStr s) i =
     (if i < length s then Inr (PStr [s ! i]) else Inl (IndexError ''string index out of range''))"
| "getitem_idx (PDict kvs) i = Inl (KeyError ''integer key'')"
| "getitem_idx v i = Inl (TypeError ''object is not subscriptable'')"

text \<open>\<open>x['key']\<close> with a string key.\<close>

fun getitem_str :: "pyval \<Rightarrow> string \<Rightarrow> exn + pyval" where
  "getitem_str (PDict kvs) k =
     (case map_of kvs k of Some v \<Rightarrow> Inr v | None \<Rightarrow> Inl (KeyError k))"
| "getitem_str (PList xs) k = Inl (TypeError ''list indices must be integers or slices, not str'')"
| "getitem_str (PStr s) k = Inl (TypeError ''string indices must be integers'')"
| "getitem_str v k = Inl (TypeError ''object is not subscriptable'')"

text \<open>\<open>x.get('key')\<close>: \<open>None\<close> when the key is missing.\<close>

fun dict_get :: "pyval \<Rightarrow> string \<Rightarrow> exn + pyval" where
  "dict_get (PDict kvs) k = (case map_of kvs k of Some v \<Rightarrow> Inr v | None \<Rightarrow> Inr PNone)"
| "dict_get v k = Inl (AttributeError ''object has no attribute get'')"

text \<open>What a \<open>for\<close> loop iterates over.\<close>

fun py_iter :: "pyval \<Rightarrow> exn + pyval list" where
  "py_iter (PList xs) = Inr xs"
| "py_iter (PDict kvs) = Inr (map (\<lambda>kv. PStr (fst kv)) kvs)"
| "py_iter (PStr s) = Inr (map (\<lambda>c. PStr [c]) s)"
| "py_iter v = Inl (TypeError ''object is not iterable'')"

text \<open>\<open>str(n)\<close> for a natural number (\<open>len(df)\<close> and the radius in the URL).\<close>

definition digit_char :: "nat \<Rightarrow> char" where
  "digit_char d = ''0123456789'' ! d"

function str_nat :: "nat \<Rightarrow> string" where
  "str_nat n = (if n < 10 then [digit_char n] else str_nat (n div 10) @ [digit_char (n mod 10)])"
  by pat_completeness auto
termination
  by (relation "measure id") auto

declare str_nat.simps [simp del]

subsection \<open>Reports and the session\<close>

text \<open>\<open>pd.Timestamp\<close>: nanoseconds since the epoch, or \<open>NaT\<close>.\<close>

datatype timestamp = Timestamp int | NaT

text \<open>
  One row of the data frame built by \<open>get_nearby_earthquakes\<close>; the frame is the list
  of its rows, and \<open>pd.DataFrame()\<close> is the empty list.
\<close>

record quake =
  place :: pyval
  magnitude :: pyval
  time :: timestamp
  lat :: pyval
  lon :: pyval

type_synonym dataframe = "quake list"

text \<open>\<open>st.session_state\<close>: a field is \<open>None\<close> until the script assigns it.\<close>

record session =
  ss_lat :: "pyval option"
  ss_lon :: "pyval option"
  ss_full_address :: "pyval option"
  ss_df :: "dataframe option"
  ss_summary :: "string option"

definition empty_session :: session where
  "empty_session =
     \<lparr>ss_lat = None, ss_lon = None, ss_full_address = None, ss_df = None, ss_summary = None\<rparr>"

subsection \<open>Collaborators and observable effects\<close>

text \<open>
  A \<open>requests.Response\<close>: what its two methods do when called. \<open>json\<close> is
  called twice in \<open>geocode_address\<close> and gives the same result both times.
\<close>

record response =
  raise_for_status :: "exn option"
  json :: "exn + pyval"

text \<open>
  The environment of one run: the replies of the external services and the library
  routines the embedding does not compute.
\<close>

record env =
  requests_get :: "string \<Rightarrow> exn + response"
  secrets :: "string \<Rightarrow> exn + string"
  genai_configure :: "string \<Rightarrow> exn option"
  generate_content :: "string \<Rightarrow> exn + string"
  float_of_str :: "string \<Rightarrow> pyfloat option"
  float_of_int :: "int \<Rightarrow> pyfloat option"
  py_repr :: "pyval \<Rightarrow> string"
  format_2f :: "pyfloat \<Rightarrow> string"
  object_max :: "pyval list \<Rightarrow> exn + pyval"
  to_datetime_ms :: "pyval \<Rightarrow> exn + timestamp"
  to_csv :: "dataframe \<Rightarrow> string"

text \<open>
  Everything a run does that can be seen from outside, in order: the calls of the
  external services and the widgets and messages of the page. The spinners are not
  recorded, and a widget call is taken not to raise.
\<close>

datatype event =
    HttpGet string
  | GenaiConfigure string
  | GenerateContent string
  | StPageConfig
  | StTitle string
  | StWrite string
  | StTextInput string
  | StButton string
  | StError string
  | StSuccess string
  | StInfo string
  | StWarning string
  | StSubheader string
  | StDataframe dataframe
  | StMap "(pyval \<times> pyval) list"
  | StDownloadButton string string
  | StMarkdown string

text \<open>A helper's outcome: its effects, and the value returned or the exception raised.\<close>

type_synonym 'a comp = "event list \<times> (exn + 'a)"

text \<open>\<open>float(x)\<close>.\<close>

fun py_float :: "env \<Rightarrow> pyval \<Rightarrow> exn + pyfloat" where
  "py_float env (PFloat f) = Inr f"
| "py_float env (PInt n) =
     (case float_of_int env n of Some f \<Rightarrow> Inr f
      | None \<Rightarrow> Inl (OverflowError ''int too large to convert to float''))"
| "py_float env (PBool b) = Inr (Finite (if b then 1 else 0))"
| "py_float env (PStr s) =
     (case float_of_str env s of Some f \<Rightarrow> Inr f
      | None \<Rightarrow> Inl (ValueError ''could not convert string to float''))"
| "py_float env v = Inl (TypeError ''float() argument must be a string or a real number'')"

text \<open>\<open>{x}\<close> inside an f-string: a \<open>str\<close> is inserted as it is.\<close>

fun py_str :: "env \<Rightarrow> pyval \<Rightarrow> string" where
  "py_str env (PStr s) = s"
| "py_str env v = py_repr env v"

subsection \<open>The Resolver: \<open>geocode_address\<close>\<close>

definition geocode_url :: "string \<Rightarrow> string" where
  "geocode_url address = ''https://geocode.maps.co/search?q='' @ address"

text \<open>Lines 30-31: the first entry, and the returned triple.\<close>

definition first_match :: "env \<Rightarrow> pyval \<Rightarrow> exn + (pyval \<times> pyval \<times> pyval)" where
  "first_match env body =
     bindE (getitem_idx body 0) (\<lambda>data.
     bindE (getitem_str data ''lat'') (\<lambda>la.
     bindE (py_float env la) (\<lambda>lat_f.
     bindE (getitem_str data ''lon'') (\<lambda>lo.
     bindE (py_float env lo) (\<lambda>lon_f.
     bindE (dict_get data ''display_name'') (\<lambda>name.
     Inr (PFloat lat_f, PFloat lon_f, name)))))))"

text \<open>
  The body of the \<open>try\<close> (lines 27-31). \<open>Inr None\<close>: the body ended without
  returning, because the decoded reply was falsy.
\<close>

definition geocode_try :: "env \<Rightarrow> string \<Rightarrow> exn + (pyval \<times> pyval \<times> pyval) option" where
  "geocode_try env url =
     bindE (requests_get env url) (\<lambda>response.
       case raise_for_status response of
         Some e \<Rightarrow> Inl e
       | None \<Rightarrow>
           bindE (json response) (\<lambda>body.
             if truthy body then bindE (first_match env body) (\<lambda>r. Inr (Some r))
             else Inr None))"

text \<open>
  Lines 23-34. Only a \<open>RequestException\<close> is caught; it is reported with
  \<open>st.error\<close>. Both the handled failure and the falsy reply fall through to
  \<open>return None, None, None\<close>.
\<close>

definition geocode_address :: "env \<Rightarrow> string \<Rightarrow> (pyval \<times> pyval \<times> pyval) comp" where
  "geocode_address env address =
     (let url = geocode_url address in
      case geocode_try env url of
        Inr (Some r) \<Rightarrow> ([HttpGet url], Inr r)
      | Inr None \<Rightarrow> ([HttpGet url], Inr (PNone, PNone, PNone))
      | Inl (RequestException m) \<Rightarrow>
          ([HttpGet url, StError (''Geocoding API failed: '' @ m)], Inr (PNone, PNone, PNone))
      | Inl e \<Rightarrow> ([HttpGet url], Inl e))"

subsection \<open>The Fetcher: \<open>get_nearby_earthquakes\<close>\<close>

definition usgs_url :: "env \<Rightarrow> pyval \<Rightarrow> pyval \<Rightarrow> nat \<Rightarrow> string" where
  "usgs_url env la lo radius_km =
     ''https://earthquake.usgs.gov/fdsnws/event/1/query?format=geojson&latitude=''
     @ py_str env la @ ''&longitude='' @ py_str env lo
     @ ''&maxradiuskm='' @ str_nat radius_km @ ''&orderby=time''"

text \<open>Lines 45-53: the dict appended for one feature, its entries evaluated in order.\<close>

definition quake_of_feature :: "env \<Rightarrow> pyval \<Rightarrow> exn + quake" where
  "quake_of_feature env feature =
     bindE (getitem_str feature ''properties'') (\<lambda>properties.
     bindE (getitem_str feature ''geometry'') (\<lambda>geometry.
     bindE (getitem_str geometry ''coordinates'') (\<lambda>coords.
     bindE (getitem_str properties ''place'') (\<lambda>p.
     bindE (getitem_str properties ''mag'') (\<lambda>m.
     bindE (getitem_str properties ''time'') (\<lambda>t.
     bindE (to_datetime_ms env t) (\<lambda>ts.
     bindE (getitem_idx coords 1) (\<lambda>la.
     bindE (getitem_idx coords 0) (\<lambda>lo.
     Inr \<lparr>place = p, magnitude = m, time = ts, lat = la, lon = lo\<rparr>)))))))))"

text \<open>The \<open>for\<close> loop of lines 44-53, with \<open>earthquakes\<close> as accumulator.\<close>

fun collect_quakes :: "env \<Rightarrow> pyval list \<Rightarrow> quake list \<Rightarrow> exn + quake list" where
  "collect_quakes env [] earthquakes = Inr earthquakes"
| "collect_quakes env (feature # rest) earthquakes =
     (case quake_of_feature env feature of
        Inl e \<Rightarrow> Inl e
      | Inr q \<Rightarrow> collect_quakes env rest (earthquakes @ [q]))"

text \<open>The body of the \<open>try\<close> (lines 40-54).\<close>

definition fetch_try :: "env \<Rightarrow> string \<Rightarrow> exn + dataframe" where
  "fetch_try env url =
     bindE (requests_get env url) (\<lambda>response.
       case raise_for_status response of
         Some e \<Rightarrow> Inl e
       | None \<Rightarrow>
           bindE (json response) (\<lambda>body.
           bindE (getitem_str body ''features'') (\<lambda>data.
           bindE (py_iter data) (\<lambda>features.
           collect_quakes env features []))))"

text \<open>
  Lines 36-57. A \<open>RequestException\<close> is reported with \<open>st.error\<close> and the empty
  frame \<open>pd.DataFrame()\<close> is returned; any other exception propagates.
\<close>

definition get_nearby_earthquakes :: "env \<Rightarrow> pyval \<Rightarrow> pyval \<Rightarrow> nat \<Rightarrow> dataframe comp" where
  "get_nearby_earthquakes env la lo radius_km =
     (let url = usgs_url env la lo radius_km in
      case fetch_try env url of
        Inr df \<Rightarrow> ([HttpGet url], Inr df)
      | Inl (RequestException m) \<Rightarrow>
          ([HttpGet url, StError (''USGS Earthquake API failed: '' @ m)], Inr [])
      | Inl e \<Rightarrow> ([HttpGet url], Inl e))"

subsection \<open>The Narrative Generator: \<open>generate_ai_summary\<close>\<close>

text \<open>
  The magnitude column. A frame built from JSON numbers and nulls has a float column,
  with \<open>nan\<close> for a null; integers are converted when the frame is built. A cell of
  any other kind (a string, a boolean, a container, an integer outside the 64-bit range)
  makes it a column of objects: \<open>float64_column\<close> is \<open>None\<close> then.
\<close>

definition int64 :: "int \<Rightarrow> bool" where
  "int64 n = (- (2 ^ 63) \<le> n \<and> n < 2 ^ 63)"

fun float64_cell :: "env \<Rightarrow> pyval \<Rightarrow> pyfloat option" where
  "float64_cell env PNone = Some NaN"
| "float64_cell env (PFloat f) = Some f"
| "float64_cell env (PInt n) = (if int64 n then float_of_int env n else None)"
| "float64_cell env v = None"

fun float64_column :: "env \<Rightarrow> pyval list \<Rightarrow> pyfloat list option" where
  "float64_column env [] = Some []"
| "float64_column env (v # vs) =
     (case float64_cell env v of
        None \<Rightarrow> None
      | Some x \<Rightarrow>
          (case float64_column env vs of
             None \<Rightarrow> None
           | Some xs \<Rightarrow> Some (x # xs)))"

text \<open>The order of floats other than \<open>nan\<close>.\<close>

fun fl_le :: "pyfloat \<Rightarrow> pyfloat \<Rightarrow> bool" where
  "fl_le NaN y = False"
| "fl_le x NaN = False"
| "fl_le NegInf y = True"
| "fl_le x PosInf = True"
| "fl_le (Finite a) (Finite b) = (a \<le> b)"
| "fl_le x y = False"

definition fl_max :: "pyfloat \<Rightarrow> pyfloat \<Rightarrow> pyfloat" where
  "fl_max a b = (if fl_le a b then b else a)"

text \<open>
  The maximum of a float column: the \<open>nan\<close> cells are skipped, and the result is
  \<open>nan\<close> when no cell is left.
\<close>

definition nanmax :: "pyfloat list \<Rightarrow> pyfloat" where
  "nanmax col =
     (case filter (\<lambda>x. x \<noteq> NaN) col of
        [] \<Rightarrow> NaN
      | x # rest \<Rightarrow> fold fl_max rest x)"

text \<open>
  Line 70, \<open>df['magnitude'].max()\<close>. The maximum of a column of objects that holds a
  single string is that string; for the other columns of objects it is what the
  environment's \<open>object_max\<close> says, a value or an exception.
\<close>

definition series_max :: "env \<Rightarrow> pyval list \<Rightarrow> exn + pyval" where
  "series_max env vs =
     (case float64_column env vs of
        Some col \<Rightarrow> Inr (PFloat (nanmax col))
      | None \<Rightarrow>
          (case vs of
             [PStr s] \<Rightarrow> Inr (PStr s)
           | _ \<Rightarrow> object_max env vs))"

text \<open>
  Line 73, \<open>{max_mag:.2f}\<close>: a float is printed, an integer or a boolean is converted
  to a float first, a string raises \<open>ValueError\<close>, and \<open>None\<close> and the containers
  raise \<open>TypeError\<close>.
\<close>

fun format_max_mag :: "env \<Rightarrow> pyval \<Rightarrow> exn + string" where
  "format_max_mag env (PFloat f) = Inr (format_2f env f)"
| "format_max_mag env (PInt n) =
     (case float_of_int env n of Some f \<Rightarrow> Inr (format_2f env f)
      | None \<Rightarrow> Inl (OverflowError ''int too large to convert to float''))"
| "format_max_mag env (PBool b) = Inr (format_2f env (Finite (if b then 1 else 0)))"
| "format_max_mag env (PStr s) =
     Inl (ValueError ''Unknown format code f for object of type str'')"
| "format_max_mag env v = Inl (TypeError ''unsupported format string passed to __format__'')"

text \<open>
  Lines 66-74: the prompt. Lines 70 and 73 are outside the \<open>try\<close>, so what they raise
  leaves the function.
\<close>

definition build_prompt :: "env \<Rightarrow> pyval \<Rightarrow> dataframe \<Rightarrow> exn + string" where
  "build_prompt env address_name df =
     (if df = [] then
        Inr (''Write a brief, one-paragraph site analysis summary for the location: ''
             @ py_str env address_name
             @ ''. State that no recent seismic activity was found in the immediate vicinity, which is a positive sign for geological stability.'')
      else
        (let num_quakes = length df in
         bindE (series_max env (map magnitude df)) (\<lambda>max_mag.
         bindE (format_max_mag env max_mag) (\<lambda>max_mag_2f.
         Inr (''Write a brief, one-paragraph site analysis summary for the location: ''
              @ py_str env address_name @ ''. ''
              @ ''The analysis found '' @ str_nat num_quakes @ '' recent seismic events nearby. ''
              @ ''The largest magnitude was '' @ max_mag_2f @ ''. ''
              @ ''Briefly explain what this might mean for a site risk assessment in a professional but easy-to-understand tone.'')))))"

text \<open>
  Lines 59-80. The global \<open>API_KEY_CONFIGURED\<close> is the second argument.
  \<open>generate_content env\<close> stands for lines 77-78 (the call and reading
  \<open>response.text\<close>); \<open>except Exception\<close> catches whatever they raise.
  Line 64 only builds the client object and is taken not to raise.
\<close>

definition generate_ai_summary :: "env \<Rightarrow> bool \<Rightarrow> pyval \<Rightarrow> dataframe \<Rightarrow> string comp" where
  "generate_ai_summary env configured address_name df =
     (if \<not> configured then
        ([], Inr ''AI model is not configured. Please add your GOOGLE_API_KEY to the Streamlit secrets.'')
      else
        (case build_prompt env address_name df of
           Inl e \<Rightarrow> ([], Inl e)
         | Inr prompt \<Rightarrow>
             (case generate_content env prompt of
                Inr text \<Rightarrow> ([GenerateContent prompt], Inr text)
              | Inl e \<Rightarrow>
                  ([GenerateContent prompt],
                   Inr (''An error occurred with the AI model: '' @ exn_str e)))))"

subsection \<open>The script\<close>

text \<open>
  One run of the script is caused by one interaction. The text typed in the address
  box is passed along with it.
\<close>

datatype action = Rerun | ClickAnalyze | ClickGenerate | ClickDownload

text \<open>
  The outcome of a run, or of a part of it: the effects, the session state left behind,
  and the exception that stopped the run, if any.
\<close>

type_synonym run = "event list \<times> session \<times> exn option"

text \<open>Running the next part of the script unless the run has stopped.\<close>

fun then_run :: "run \<Rightarrow> (session \<Rightarrow> run) \<Rightarrow> run" where
  "then_run (t, s, Some e) f = (t, s, Some e)"
| "then_run (t, s, None) f = (case f s of (t', s', r) \<Rightarrow> (t @ t', s', r))"

text \<open>
  Lines 16-20: only \<open>KeyError\<close> and \<open>AttributeError\<close> turn the flag off. Any other
  exception of \<open>st.secrets[...]\<close> or \<open>genai.configure\<close> leaves the block and
  stops the run; \<open>FileNotFoundError\<close> is what \<open>st.secrets\<close> raises when there is
  no secrets file.
\<close>

fun config_except :: "event list \<Rightarrow> exn \<Rightarrow> bool comp" where
  "config_except t (KeyError m) = (t, Inr False)"
| "config_except t (AttributeError m) = (t, Inr False)"
| "config_except t e = (t, Inl e)"

definition api_key_configured :: "env \<Rightarrow> bool comp" where
  "api_key_configured env =
     (case secrets env ''GOOGLE_API_KEY'' of
        Inl e \<Rightarrow> config_except [] e
      | Inr k \<Rightarrow>
          (case genai_configure env k of
             None \<Rightarrow> ([GenaiConfigure k], Inr True)
           | Some e \<Rightarrow> config_except [GenaiConfigure k] e))"

text \<open>Lines 89-102: the body of \<open>if st.button("Analyze Site")\<close>.\<close>

definition analyze_site :: "env \<Rightarrow> string \<Rightarrow> session \<Rightarrow> run" where
  "analyze_site env address s =
     (case geocode_address env address of
        (t, Inl e) \<Rightarrow> (t, s, Some e)
      | (t, Inr (la, lo, full_address)) \<Rightarrow>
          if truthy la \<and> truthy lo then
            (let s1 = s\<lparr>ss_lat := Some la, ss_lon := Some lo,
                        ss_full_address := Some full_address\<rparr>
             in case get_nearby_earthquakes env la lo 100 of
                  (t', Inl e) \<Rightarrow> (t @ t', s1, Some e)
                | (t', Inr df) \<Rightarrow>
                    (t @ t' @ [StSuccess (''Successfully analyzed: **''
                                          @ py_str env full_address @ ''**'')],
                     s1\<lparr>ss_df := Some df\<rparr>, None))
          else (t, s, None))"

text \<open>Reading \<open>st.session_state.lat\<close> and \<open>.lon\<close> for the map.\<close>

definition session_point :: "session \<Rightarrow> exn + (pyval \<times> pyval)" where
  "session_point s =
     (case ss_lat s of
        None \<Rightarrow> Inl (AttributeError ''st.session_state has no attribute lat'')
      | Some la \<Rightarrow>
          (case ss_lon s of
             None \<Rightarrow> Inl (AttributeError ''st.session_state has no attribute lon'')
           | Some lo \<Rightarrow> Inr (la, lo)))"

text \<open>Lines 105-124: the report, for the frame found in the session.\<close>

definition show_report :: "env \<Rightarrow> dataframe \<Rightarrow> session \<Rightarrow> run" where
  "show_report env df s =
     (if df \<noteq> [] then
        (let t = [StSubheader ''Seismic Activity Report'',
                  StWrite (''Found **'' @ str_nat (length df)
                           @ ''** recent seismic events within 100km.''),
                  StDataframe df]
         in case session_point s of
              Inl e \<Rightarrow> (t, s, Some e)
            | Inr pt \<Rightarrow>
                (t @ [StMap (map (\<lambda>q. (lat q, lon q)) df @ [pt]),
                      StDownloadButton ''Download Report as CSV'' (to_csv env df)],
                 s, None))
      else
        (let t = [StSubheader ''Seismic Activity Report'',
                  StInfo ''No recent seismic activity found in the vicinity.'']
         in case session_point s of
              Inl e \<Rightarrow> (t, s, Some e)
            | Inr pt \<Rightarrow> (t @ [StMap [pt]], s, None)))"

text \<open>
  Lines 126-132. The button is created only when the flag is on, and the summary is
  generated only in the run caused by pressing it.
\<close>

definition ai_section :: "env \<Rightarrow> bool \<Rightarrow> action \<Rightarrow> dataframe \<Rightarrow> session \<Rightarrow> run" where
  "ai_section env configured a df s =
     (if \<not> configured then
        ([StSubheader ''AI-Powered Summary'',
          StWarning ''AI features are disabled. Please configure your Google API Key in secrets.toml.''],
         s, None)
      else if a = ClickGenerate then
        (let t = [StSubheader ''AI-Powered Summary'', StButton ''Generate AI Summary'']
         in case ss_full_address s of
              None \<Rightarrow>
                (t, s, Some (AttributeError ''st.session_state has no attribute full_address''))
            | Some name \<Rightarrow>
                (case generate_ai_summary env configured name df of
                   (t', Inl e) \<Rightarrow> (t @ t', s, Some e)
                 | (t', Inr summary) \<Rightarrow> (t @ t', s\<lparr>ss_summary := Some summary\<rparr>, None)))
      else
        ([StSubheader ''AI-Powered Summary'', StButton ''Generate AI Summary''], s, None))"

text \<open>Lines 104-132: \<open>if 'df' in st.session_state\<close>.\<close>

definition report_section :: "env \<Rightarrow> bool \<Rightarrow> action \<Rightarrow> session \<Rightarrow> run" where
  "report_section env configured a s =
     (case ss_df s of
        None \<Rightarrow> ([], s, None)
      | Some df \<Rightarrow> then_run (show_report env df s) (ai_section env configured a df))"

text \<open>Lines 134-135.\<close>

definition summary_section :: "session \<Rightarrow> run" where
  "summary_section s =
     (case ss_summary s of
        None \<Rightarrow> ([], s, None)
      | Some summary \<Rightarrow> ([StMarkdown summary], s, None))"

text \<open>Lines 83-102: title, address box, and the Analyze button with its handler.\<close>

definition analyze_section :: "env \<Rightarrow> string \<Rightarrow> action \<Rightarrow> session \<Rightarrow> run" where
  "analyze_section env address a s =
     (let t = [StTitle ''Instant Site Analysis Report'',
               StWrite ''Enter a U.S. address to pull live data and generate an AI-powered summary. This demonstrates rapid prototyping with real-time data analysis.'',
               StTextInput ''Enter a U.S. Address:'',
               StButton ''Analyze Site'']
      in if a = ClickAnalyze then
           (case analyze_site env address s of (t', s', r) \<Rightarrow> (t @ t', s', r))
         else (t, s, None))"

text \<open>The whole file, run once.\<close>

definition script :: "env \<Rightarrow> string \<Rightarrow> action \<Rightarrow> session \<Rightarrow> run" where
  "script env address a s =
     (case api_key_configured env of
        (t0, Inl e) \<Rightarrow> (StPageConfig # t0, s, Some e)
      | (t0, Inr configured) \<Rightarrow>
          then_run
            (then_run
               (case analyze_section env address a s of
                  (t, s', r) \<Rightarrow> (StPageConfig # t0 @ t, s', r))
               (report_section env configured a))
            summary_section)"

text \<open>
  A session: the runs caused by a list of interactions, each starting from the state
  the one before left, also when that one stopped with an exception.
\<close>

fun run_session :: "env \<Rightarrow> session \<Rightarrow> (string \<times> action) list \<Rightarrow> event list \<times> session" where
  "run_session env s [] = ([], s)"
| "run_session env s ((address, a) # rest) =
     (case script env address a s of
        (t, s', r) \<Rightarrow> (case run_session env s' rest of (t', s'') \<Rightarrow> (t @ t', s'')))"

section \<open>What the specification says about a catalog feature\<close>

text \<open>
  The specification reads a feature by path: \<open>properties.place\<close>,
  \<open>properties.mag\<close>, \<open>properties.time\<close> and \<open>geometry.coordinates\<close>, a
  \<open>[lon, lat]\<close> array. \<open>spec_record\<close> is the record it describes for a feature
  that has these parts: the time converted to a calendar timestamp, the latitude taken
  from the second coordinate and the longitude from the first.
\<close>

fun field :: "pyval \<Rightarrow> string \<Rightarrow> pyval option" where
  "field (PDict kvs) k = map_of kvs k"
| "field v k = None"

fun element :: "pyval \<Rightarrow> nat \<Rightarrow> pyval option" where
  "element (PList xs) i = (if i < length xs then Some (xs ! i) else None)"
| "element v i = None"

definition calendar_time :: "env \<Rightarrow> pyval \<Rightarrow> timestamp option" where
  "calendar_time env t = (case to_datetime_ms env t of Inl e \<Rightarrow> None | Inr ts \<Rightarrow> Some ts)"

definition spec_record :: "env \<Rightarrow> pyval \<Rightarrow> quake option" where
  "spec_record env f =
     Option.bind (field f ''properties'') (\<lambda>props.
     Option.bind (field f ''geometry'') (\<lambda>geom.
     Option.bind (field geom ''coordinates'') (\<lambda>coords.
     Option.bind (field props ''place'') (\<lambda>p.
     Option.bind (field props ''mag'') (\<lambda>m.
     Option.bind (field props ''time'') (\<lambda>t.
     Option.bind (calendar_time env t) (\<lambda>calendar.
     Option.bind (element coords 0) (\<lambda>first.
     Option.bind (element coords 1) (\<lambda>second.
     Some \<lparr>place = p, magnitude = m, time = calendar, lat = second, lon = first\<rparr>)))))))))"

section \<open>Concrete environments\<close>

text \<open>
  A session at the default address: the geocoder finds one match, the catalog holds two
  events, and the library routines are given on the values that occur.
\<close>

definition demo_address :: string where
  "demo_address = ''1600 Amphitheatre Parkway, Mountain View, CA''"

definition ok_response :: "pyval \<Rightarrow> response" where
  "ok_response body = \<lparr>raise_for_status = None, json = Inr body\<rparr>"

definition demo_match :: pyval where
  "demo_match =
     PDict [(''lat'', PStr ''37.42''), (''lon'', PStr ''-122.08''),
            (''display_name'', PStr ''Google Building 41, Mountain View, CA'')]"

definition demo_feature_1 :: pyval where
  "demo_feature_1 =
     PDict [(''type'', PStr ''Feature''),
            (''properties'', PDict [(''mag'', PFloat (Finite (31 / 10))),
                                    (''place'', PStr ''5 km N of San Jose, CA''),
                                    (''time'', PInt 1700000000000)]),
            (''geometry'', PDict [(''type'', PStr ''Point''),
                                  (''coordinates'', PList [PFloat (Finite (- 1219 / 10)),
                                                           PFloat (Finite (187 / 5)),
                                                           PFloat (Finite 8)])])]"

definition demo_feature_2 :: pyval where
  "demo_feature_2 =
     PDict [(''type'', PStr ''Feature''),
            (''properties'', PDict [(''mag'', PFloat (Finite (9 / 2))),
                                    (''place'', PStr ''12 km E of Gilroy, CA''),
                                    (''time'', PInt 1690000000000)]),
            (''geometry'', PDict [(''type'', PStr ''Point''),
                                  (''coordinates'', PList [PFloat (Finite (- 607 / 5)),
                                                           PFloat (Finite 37),
                                                           PFloat (Finite 5)])])]"

definition demo_catalog :: pyval where
  "demo_catalog =
     PDict [(''type'', PStr ''FeatureCollection''),
            (''features'', PList [demo_feature_1, demo_feature_2])]"

definition demo_env :: env where
  "demo_env =
     \<lparr>requests_get = (\<lambda>url. if url = geocode_url demo_address
                             then Inr (ok_response (PList [demo_match]))
                             else Inr (ok_response demo_catalog)),
      secrets = (\<lambda>k. if k = ''GOOGLE_API_KEY'' then Inr ''secret'' else Inl (KeyError k)),
      genai_configure = (\<lambda>k. None),
      generate_content = (\<lambda>p. Inr ''Two moderate events were recorded near the site.''),
      float_of_str = (\<lambda>s. if s = ''37.42'' then Some (Finite (1871 / 50))
                           else if s = ''-122.08'' then Some (Finite (- 3052 / 25))
                           else if s = ''-78.45'' then Some (Finite (- 1569 / 20))
                           else if s = ''0.0'' then Some (Finite 0)
                           else None),
      float_of_int = (\<lambda>n. Some (Finite (of_int n))),
      py_repr = (\<lambda>v. if v = PFloat (Finite (1871 / 50)) then ''37.42''
                      else if v = PFloat (Finite (- 3052 / 25)) then ''-122.08''
                      else if v = PNone then ''None''
                      else ''...''),
      format_2f = (\<lambda>f. if f = Finite (9 / 2) then ''4.50''
                        else if f = Finite (31 / 10) then ''3.10''
                        else if f = NaN then ''nan''
                        else ''...''),
      object_max = (\<lambda>vs. Inl (TypeError ''not supported between instances'')),
      to_datetime_ms = (\<lambda>v. case v of PInt n \<Rightarrow> Inr (Timestamp (n * 1000000))
                                     | PNone \<Rightarrow> Inr NaT
                                     | _ \<Rightarrow> Inl (TypeError ''not an epoch'')),
      to_csv = (\<lambda>df. ''place,magnitude,time,lat,lon'')\<rparr>"

definition demo_quake_1 :: quake where
  "demo_quake_1 =
     \<lparr>place = PStr ''5 km N of San Jose, CA'', magnitude = PFloat (Finite (31 / 10)),
      time = Timestamp 1700000000000000000,
      lat = PFloat (Finite (187 / 5)), lon = PFloat (Finite (- 1219 / 10))\<rparr>"

definition demo_quake_2 :: quake where
  "demo_quake_2 =
     \<lparr>place = PStr ''12 km E of Gilroy, CA'', magnitude = PFloat (Finite (9 / 2)),
      time = Timestamp 1690000000000000000,
      lat = PFloat (Finite 37), lon = PFloat (Finite (- 607 / 5))\<rparr>"

definition demo_lat :: pyval where "demo_lat = PFloat (Finite (1871 / 50))"
definition demo_lon :: pyval where "demo_lon = PFloat (Finite (- 3052 / 25))"

text \<open>The geocoder answers with an empty array.\<close>

definition no_match_env :: env where
  "no_match_env = demo_env\<lparr>requests_get := (\<lambda>url. Inr (ok_response (PList [])))\<rparr>"

text \<open>The geocoder resolves an address on the equator: latitude \<open>0.0\<close>.\<close>

definition equator_match :: pyval where
  "equator_match =
     PDict [(''lat'', PStr ''0.0''), (''lon'', PStr ''-78.45''),
            (''display_name'', PStr ''Mitad del Mundo, Pichincha, Ecuador'')]"

definition equator_env :: env where
  "equator_env =
     demo_env\<lparr>requests_get := (\<lambda>url. if url = geocode_url ''Mitad del Mundo''
                                      then Inr (ok_response (PList [equator_match]))
                                      else Inr (ok_response demo_catalog))\<rparr>"

text \<open>The first match has no \<open>display_name\<close>.\<close>

definition nameless_match :: pyval where
  "nameless_match = PDict [(''lat'', PStr ''37.42''), (''lon'', PStr ''-122.08'')]"

definition nameless_env :: env where
  "nameless_env = demo_env\<lparr>requests_get := (\<lambda>url. Inr (ok_response (PList [nameless_match])))\<rparr>"

text \<open>The messages a run shows with \<open>st.error\<close>.\<close>

definition errors_shown :: "event list \<Rightarrow> string list" where
  "errors_shown t = concat (map (\<lambda>ev. case ev of StError m \<Rightarrow> [m] | _ \<Rightarrow> []) t)"

text \<open>A catalog event without a magnitude, and one whose magnitude is a string.\<close>

definition null_quake :: quake where
  "null_quake =
     \<lparr>place = PStr ''3 km W of Cobb, CA'', magnitude = PNone,
      time = Timestamp 1695000000000000000,
      lat = PFloat (Finite (194 / 5)), lon = PFloat (Finite (- 614 / 5))\<rparr>"

definition text_quake :: quake where
  "text_quake =
     \<lparr>place = PStr ''3 km W of Cobb, CA'', magnitude = PStr ''4.5'',
      time = Timestamp 1695000000000000000,
      lat = PFloat (Finite (194 / 5)), lon = PFloat (Finite (- 614 / 5))\<rparr>"

text \<open>The catalog request times out.\<close>

definition usgs_down_env :: env where
  "usgs_down_env =
     demo_env\<lparr>requests_get := (\<lambda>url. if url = geocode_url demo_address
                                      then Inr (ok_response (PList [demo_match]))
                                      else Inl (RequestException ''Read timed out. (read timeout=10)''))\<rparr>"

text \<open>The generative-language service refuses the call.\<close>

definition ai_down_env :: env where
  "ai_down_env =
     demo_env\<lparr>generate_content := (\<lambda>p. Inl (OtherException ''429 Resource has been exhausted''))\<rparr>"

text \<open>No credential in the secrets.\<close>

definition no_key_env :: env where
  "no_key_env = demo_env\<lparr>secrets := (\<lambda>k. Inl (KeyError k))\<rparr>"

text \<open>No secrets file at all.\<close>

definition no_secrets_env :: env where
  "no_secrets_env = demo_env\<lparr>secrets := (\<lambda>k. Inl (FileNotFoundError ''No secrets files found.''))\<rparr>"

text \<open>A session that holds a report and a narrative generated earlier.\<close>

definition narrated_session :: session where
  "narrated_session =
     \<lparr>ss_lat = Some demo_lat, ss_lon = Some demo_lon,
      ss_full_address = Some (PStr ''Google Building 41, Mountain View, CA''),
      ss_df = Some [demo_quake_1, demo_quake_2],
      ss_summary = Some ''Two moderate events were recorded near the site.''\<rparr>"

section \<open>Notions used in the properties\<close>

text \<open>
  The catalog request fails: \<open>requests.get\<close> raises (network error, timeout) or
  \<open>raise_for_status\<close> raises (error status), with message \<open>m\<close>.
\<close>

definition fetch_failed :: "env \<Rightarrow> string \<Rightarrow> string \<Rightarrow> bool" where
  "fetch_failed env url m =
     (case requests_get env url of
        Inl e \<Rightarrow> e = RequestException m
      | Inr r \<Rightarrow> raise_for_status r = Some (RequestException m))"

text \<open>
  A magnitude as the catalog sends it: a JSON number (an integer within the 64-bit range
  that \<open>float\<close> accepts, or a float), or null.
\<close>

definition number_or_null :: "env \<Rightarrow> pyval \<Rightarrow> bool" where
  "number_or_null env v =
     (case v of
        PNone \<Rightarrow> True
      | PFloat f \<Rightarrow> True
      | PInt n \<Rightarrow> int64 n \<and> float_of_int env n \<noteq> None
      | _ \<Rightarrow> False)"

text \<open>
  The two prompt templates; the second holds the number of events and a text for the
  largest magnitude.
\<close>

definition empty_prompt :: "env \<Rightarrow> pyval \<Rightarrow> string" where
  "empty_prompt env name =
     ''Write a brief, one-paragraph site analysis summary for the location: ''
     @ py_str env name
     @ ''. State that no recent seismic activity was found in the immediate vicinity, which is a positive sign for geological stability.''"

definition events_prompt :: "env \<Rightarrow> pyval \<Rightarrow> nat \<Rightarrow> string \<Rightarrow> string" where
  "events_prompt env name n largest =
     ''Write a brief, one-paragraph site analysis summary for the location: ''
     @ py_str env name @ ''. ''
     @ ''The analysis found '' @ str_nat n @ '' recent seismic events nearby. ''
     @ ''The largest magnitude was '' @ largest @ ''. ''
     @ ''Briefly explain what this might mean for a site risk assessment in a professional but easy-to-understand tone.''"

text \<open>The warning shown in place of the narrative button.\<close>

definition disabled_warning :: event where
  "disabled_warning =
     StWarning ''AI features are disabled. Please configure your Google API Key in secrets.toml.''"

text \<open>
  A call of the generative-language service, or the button that triggers one.
\<close>

fun generation_event :: "event \<Rightarrow> bool" where
  "generation_event (GenerateContent p) = True"
| "generation_event (StButton label) = (label = ''Generate AI Summary'')"
| "generation_event ev = False"

definition quiet :: "event list \<Rightarrow> bool" where
  "quiet t = (\<forall>ev\<in>set t. \<not> generation_event ev)"

section \<open>Properties\<close>

subsection \<open>The Resolver\<close>

lemma geocode_try_request_failed:
  "requests_get env url = Inl e \<Longrightarrow> geocode_try env url = Inl e"
  by (simp add: geocode_try_def)

lemma geocode_try_status_failed:
  "requests_get env url = Inr r \<Longrightarrow> raise_for_status r = Some e \<Longrightarrow> geocode_try env url = Inl e"
  by (simp add: geocode_try_def)

lemma geocode_address_failure_reported:
  "geocode_try env (geocode_url a) = Inl (RequestException m) \<Longrightarrow>
   geocode_address env a =
     ([HttpGet (geocode_url a), StError (''Geocoding API failed: '' @ m)],
      Inr (PNone, PNone, PNone))"
  by (simp add: geocode_address_def)

lemma analyze_site_unresolved:
  "geocode_address env a = (t, Inr (PNone, lo, name)) \<Longrightarrow> analyze_site env a s = (t, s, None)"
  by (simp add: analyze_site_def)

lemma analyze_site_geocode_failed:
  "geocode_try env (geocode_url a) = Inl (RequestException m) \<Longrightarrow>
   analyze_site env a s =
     ([HttpGet (geocode_url a), StError (''Geocoding API failed: '' @ m)], s, None)"
  by (simp add: analyze_site_def geocode_address_failure_reported)

lemma no_match_geocode:
  "geocode_address no_match_env demo_address =
     ([HttpGet (geocode_url demo_address)], Inr (PNone, PNone, PNone))"
  by (simp add: geocode_address_def geocode_try_def no_match_env_def demo_env_def ok_response_def)

lemma no_match_configured:
  "api_key_configured no_match_env = ([GenaiConfigure ''secret''], Inr True)"
  by (simp add: api_key_configured_def no_match_env_def demo_env_def)

lemma no_match_analyze_site:
  "analyze_site no_match_env demo_address s = ([HttpGet (geocode_url demo_address)], s, None)"
  by (simp add: analyze_site_def no_match_geocode)

text \<open>
  Claim C1. A geocoding attempt that fails is signalled by the Resolver, shown to the user
  as an error message, not retried, and followed by no seismic fetch and no change of the
  session. The code does this when the request fails
  (\<open>analyze_site_geocode_failed\<close>), but not when the endpoint returns zero
  matches: for the reply \<open>[]\<close> the Resolver returns \<open>(None, None, None)\<close> after
  its single request, the whole run shows no error message, and the session is left as
  it was.
\<close>

theorem geocode_no_match_shows_no_error:
  "geocode_address no_match_env demo_address =
     ([HttpGet (geocode_url demo_address)], Inr (PNone, PNone, PNone))
   \<and> errors_shown (fst (script no_match_env demo_address ClickAnalyze empty_session)) = []
   \<and> snd (script no_match_env demo_address ClickAnalyze empty_session) = (empty_session, None)"
  by (simp add: script_def no_match_configured analyze_section_def no_match_analyze_site
      report_section_def summary_section_def empty_session_def errors_shown_def no_match_geocode)

lemma analyze_site_resolved:
  assumes "geocode_address env a = (t, Inr (la, lo, name))"
    and "truthy la" and "truthy lo"
    and "get_nearby_earthquakes env la lo 100 = (t', Inr df)"
  shows "analyze_site env a s =
           (t @ t' @ [StSuccess (''Successfully analyzed: **'' @ py_str env name @ ''**'')],
            s\<lparr>ss_lat := Some la, ss_lon := Some lo, ss_full_address := Some name,
              ss_df := Some df\<rparr>, None)"
  using assms by (simp add: analyze_site_def)

lemma equator_geocode:
  "geocode_address equator_env ''Mitad del Mundo'' =
     ([HttpGet (geocode_url ''Mitad del Mundo'')],
      Inr (PFloat (Finite 0), PFloat (Finite (- 1569 / 20)),
           PStr ''Mitad del Mundo, Pichincha, Ecuador''))"
  by (simp add: geocode_address_def geocode_try_def equator_env_def demo_env_def ok_response_def
      first_match_def equator_match_def)

text \<open>
  Claim C2. Whenever the Resolver returns a latitude, a longitude and a display name, the
  Fetcher is called with these coordinates and the results are stored in the session.
  The handler tests \<open>if lat and lon\<close>, which is false for the float \<open>0.0\<close>: an address
  resolved to latitude \<open>0.0\<close> is dropped like a failed one. The Resolver returns the
  three values, and the handler makes no catalog request and leaves the session unchanged.
  For coordinates other than zero the handler does what the claim says
  (\<open>analyze_site_resolved\<close>).
\<close>

theorem equator_address_not_analyzed:
  "geocode_address equator_env ''Mitad del Mundo'' =
     ([HttpGet (geocode_url ''Mitad del Mundo'')],
      Inr (PFloat (Finite 0), PFloat (Finite (- 1569 / 20)),
           PStr ''Mitad del Mundo, Pichincha, Ecuador''))
   \<and> analyze_site equator_env ''Mitad del Mundo'' empty_session =
       ([HttpGet (geocode_url ''Mitad del Mundo'')], empty_session, None)"
  by (simp add: analyze_site_def equator_geocode)

text \<open>
  Claim C3, as stated: for every reply with at least one entry the Resolver returns a
  non-null latitude, longitude and display name. It fails for the display name, which is
  read with \<open>data.get('display_name')\<close>: when the first entry has no such field the
  Resolver succeeds and returns \<open>None\<close> in its place.
\<close>

theorem geocode_display_name_null_counterexample:
  "json (ok_response (PList [nameless_match])) = Inr (PList [nameless_match])
   \<and> geocode_address nameless_env demo_address =
       ([HttpGet (geocode_url demo_address)],
        Inr (PFloat (Finite (1871 / 50)), PFloat (Finite (- 3052 / 25)), PNone))"
  by (simp add: geocode_address_def geocode_try_def nameless_env_def demo_env_def ok_response_def
      first_match_def nameless_match_def)

text \<open>
  Claim C3, amended. For every reply that is an array whose first entry is an object with
  \<open>lat\<close> and \<open>lon\<close> fields that \<open>float\<close> accepts, the Resolver makes one request
  and returns the latitude and longitude parsed from that entry, and as display name the
  entry's \<open>display_name\<close> field, or \<open>None\<close> when the entry has none. Later entries
  are not looked at.
\<close>

theorem geocode_address_first_match:
  assumes "requests_get env (geocode_url a) = Inr r"
    and "raise_for_status r = None"
    and "json r = Inr (PList (PDict kvs # others))"
    and "map_of kvs ''lat'' = Some la" and "py_float env la = Inr x"
    and "map_of kvs ''lon'' = Some lo" and "py_float env lo = Inr y"
  shows "geocode_address env a =
           ([HttpGet (geocode_url a)],
            Inr (PFloat x, PFloat y,
                 case map_of kvs ''display_name'' of Some n \<Rightarrow> n | None \<Rightarrow> PNone))"
  using assms
  by (simp add: geocode_address_def geocode_try_def first_match_def split: option.splits)

theorem geocode_address_first_match_witness:
  "geocode_address demo_env demo_address =
     ([HttpGet (geocode_url demo_address)],
      Inr (PFloat (Finite (1871 / 50)), PFloat (Finite (- 3052 / 25)),
           PStr ''Google Building 41, Mountain View, CA''))"
  using geocode_address_first_match [of demo_env demo_address
      "ok_response (PList [demo_match])"
      "[(''lat'', PStr ''37.42''), (''lon'', PStr ''-122.08''),
        (''display_name'', PStr ''Google Building 41, Mountain View, CA'')]"
      "[]" "PStr ''37.42''" "Finite (1871 / 50)" "PStr ''-122.08''" "Finite (- 3052 / 25)"]
  by (simp add: demo_env_def ok_response_def demo_match_def)

subsection \<open>The Fetcher\<close>

lemma calendar_time_to_datetime:
  "calendar_time env t = Some ts \<Longrightarrow> to_datetime_ms env t = Inr ts"
  by (simp add: calendar_time_def split: sum.splits)

lemma field_getitem_str: "field v k = Some x \<Longrightarrow> getitem_str v k = Inr x"
  by (cases v) simp_all

lemma element_getitem_idx: "element v i = Some x \<Longrightarrow> getitem_idx v i = Inr x"
  by (cases v) (simp_all split: if_splits)

lemma spec_record_quake_of_feature:
  assumes "spec_record env f = Some q"
  shows "quake_of_feature env f = Inr q"
proof -
  from assms obtain props geom coords p m t c0 c1 ts where
    "field f ''properties'' = Some props" "field f ''geometry'' = Some geom"
    "field geom ''coordinates'' = Some coords" "field props ''place'' = Some p"
    "field props ''mag'' = Some m" "field props ''time'' = Some t"
    "element coords 0 = Some c0" "element coords 1 = Some c1"
    "calendar_time env t = Some ts"
    "q = \<lparr>place = p, magnitude = m, time = ts, lat = c1, lon = c0\<rparr>"
    unfolding spec_record_def by (auto simp: bind_eq_Some_conv)
  then show ?thesis
    by (simp add: quake_of_feature_def field_getitem_str element_getitem_idx
        calendar_time_to_datetime)
qed

lemma collect_quakes_spec:
  "map (spec_record env) fs = map Some qs \<Longrightarrow> collect_quakes env fs acc = Inr (acc @ qs)"
proof (induction fs arbitrary: qs acc)
  case Nil
  then show ?case by simp
next
  case (Cons f fs)
  then obtain q qs' where qs: "qs = q # qs'" "spec_record env f = Some q"
    "map (spec_record env) fs = map Some qs'"
    by (cases qs) auto
  then show ?case
    using Cons.IH [of qs' "acc @ [q]"] by (simp add: spec_record_quake_of_feature)
qed

lemma fetch_try_features:
  assumes "requests_get env url = Inr r"
    and "raise_for_status r = None"
    and "json r = Inr body"
    and "field body ''features'' = Some (PList fs)"
    and "map (spec_record env) fs = map Some qs"
  shows "fetch_try env url = Inr qs"
  using assms collect_quakes_spec [of env fs qs "[]"]
  by (simp add: fetch_try_def field_getitem_str)

text \<open>
  Claim C4. For a catalog reply with N features the Fetcher returns a report of exactly N
  records in the order of the features, each record being the one the specification
  describes for its feature: time converted from epoch milliseconds, latitude from the
  second coordinate, longitude from the first, place and magnitude from the properties.
\<close>

theorem fetch_report_matches_features:
  assumes "requests_get env (usgs_url env la lo km) = Inr r"
    and "raise_for_status r = None"
    and "json r = Inr body"
    and "field body ''features'' = Some (PList fs)"
    and "map (spec_record env) fs = map Some qs"
  shows "get_nearby_earthquakes env la lo km = ([HttpGet (usgs_url env la lo km)], Inr qs)
         \<and> length qs = length fs"
proof -
  have "fetch_try env (usgs_url env la lo km) = Inr qs"
    using assms by (rule fetch_try_features)
  moreover have "length qs = length fs"
    using assms(5) by (metis length_map)
  ultimately show ?thesis
    by (simp add: get_nearby_earthquakes_def)
qed

lemma demo_usgs_url:
  "usgs_url demo_env demo_lat demo_lon 100 =
     ''https://earthquake.usgs.gov/fdsnws/event/1/query?format=geojson&latitude=37.42&longitude=-122.08&maxradiuskm=100&orderby=time''"
  by (simp add: usgs_url_def demo_env_def demo_lat_def demo_lon_def str_nat.simps digit_char_def)

lemma demo_usgs_reply:
  "requests_get demo_env (usgs_url demo_env demo_lat demo_lon 100) = Inr (ok_response demo_catalog)"
  unfolding demo_usgs_url by (simp add: demo_env_def geocode_url_def)

lemma demo_spec_records:
  "map (spec_record demo_env) [demo_feature_1, demo_feature_2] = map Some [demo_quake_1, demo_quake_2]"
  by (simp add: spec_record_def demo_feature_1_def demo_feature_2_def demo_quake_1_def
      demo_quake_2_def demo_env_def calendar_time_def)

theorem fetch_report_matches_features_witness:
  "get_nearby_earthquakes demo_env demo_lat demo_lon 100 =
     ([HttpGet (usgs_url demo_env demo_lat demo_lon 100)], Inr [demo_quake_1, demo_quake_2])
   \<and> length [demo_quake_1, demo_quake_2] = length [demo_feature_1, demo_feature_2]"
  using fetch_report_matches_features [of demo_env demo_lat demo_lon 100 "ok_response demo_catalog"
      demo_catalog "[demo_feature_1, demo_feature_2]" "[demo_quake_1, demo_quake_2]"]
    demo_usgs_reply demo_spec_records
  by (simp add: ok_response_def demo_catalog_def)

lemma demo_fetch:
  "get_nearby_earthquakes demo_env demo_lat demo_lon 100 =
     ([HttpGet (usgs_url demo_env demo_lat demo_lon 100)], Inr [demo_quake_1, demo_quake_2])"
  using fetch_try_features [OF demo_usgs_reply _ _ _ demo_spec_records, of demo_catalog]
  by (simp add: get_nearby_earthquakes_def ok_response_def demo_catalog_def)

lemma fetch_failed_try:
  "fetch_failed env url m \<Longrightarrow> fetch_try env url = Inl (RequestException m)"
  by (auto simp: fetch_failed_def fetch_try_def split: sum.splits)

lemma fetch_failed_empty:
  "fetch_failed env (usgs_url env la lo km) m \<Longrightarrow>
   get_nearby_earthquakes env la lo km =
     ([HttpGet (usgs_url env la lo km), StError (''USGS Earthquake API failed: '' @ m)], Inr [])"
  by (simp add: get_nearby_earthquakes_def fetch_failed_try)

subsection \<open>Runs of the script\<close>

lemma then_run_cases:
  assumes "then_run x f = (t, s, r)"
  obtains (stopped) e where "x = (t, s, Some e)" "r = Some e"
  | (continued) t1 s1 t2 where "x = (t1, s1, None)" "f s1 = (t2, s, r)" "t = t1 @ t2"
proof (cases x)
  case (fields t1 s1 r1)
  show ?thesis
  proof (cases r1)
    case None
    obtain t2 s2 r2 where f: "f s1 = (t2, s2, r2)" by (cases "f s1")
    with assms fields None show ?thesis by (auto intro: continued)
  next
    case (Some e)
    with assms fields show ?thesis by (auto intro: stopped)
  qed
qed

lemma summary_section_eq:
  "summary_section s = ((case ss_summary s of None \<Rightarrow> [] | Some m \<Rightarrow> [StMarkdown m]), s, None)"
  by (simp add: summary_section_def split: option.splits)

lemma ai_section_idle:
  "a \<noteq> ClickGenerate \<Longrightarrow>
   ai_section env c a df s =
     (StSubheader ''AI-Powered Summary''
        # (if c then [StButton ''Generate AI Summary'']
           else [StWarning ''AI features are disabled. Please configure your Google API Key in secrets.toml.'']),
      s, None)"
  by (simp add: ai_section_def)

lemma script_completed:
  assumes "api_key_configured env = (t0, Inr c)"
    and "analyze_section env a act s = (t1, s1, None)"
    and "report_section env c act s1 = (t2, s2, None)"
  shows "script env a act s =
           (StPageConfig # t0 @ t1 @ t2 @ fst (summary_section s2), s2, None)"
  using assms by (simp add: script_def summary_section_eq)

lemma show_report_ready:
  "session_point s = Inr pt \<Longrightarrow> \<exists>t. show_report env df s = (t, s, None)"
  by (simp add: show_report_def Let_def)

lemma report_section_ready:
  assumes "ss_df s = Some df" and "session_point s = Inr pt" and "act \<noteq> ClickGenerate"
  shows "\<exists>t. report_section env c act s = (t, s, None)"
proof -
  obtain t where "show_report env df s = (t, s, None)"
    using show_report_ready [OF assms(2)] by blast
  then show ?thesis
    using assms(1,3) by (simp add: report_section_def ai_section_idle)
qed

lemma script_analysis_completed:
  assumes "api_key_configured env = (t0, Inr c)"
    and "geocode_address env a = (tg, Inr (la, lo, name))"
    and "truthy la" and "truthy lo"
    and "get_nearby_earthquakes env la lo 100 = (tf, Inr df)"
  shows "\<exists>t. script env a ClickAnalyze s =
           (t, s\<lparr>ss_lat := Some la, ss_lon := Some lo, ss_full_address := Some name,
                 ss_df := Some df\<rparr>, None)"
proof -
  let ?s1 = "s\<lparr>ss_lat := Some la, ss_lon := Some lo, ss_full_address := Some name,
                ss_df := Some df\<rparr>"
  obtain t1 where t1: "analyze_section env a ClickAnalyze s = (t1, ?s1, None)"
    using analyze_site_resolved [OF assms(2-5), of s] by (simp add: analyze_section_def)
  obtain t2 where t2: "report_section env c ClickAnalyze ?s1 = (t2, ?s1, None)"
    using report_section_ready [of ?s1 df "(la, lo)" ClickAnalyze env c]
    by (auto simp: session_point_def)
  show ?thesis
    using script_completed [OF assms(1) t1 t2] by blast
qed

lemma script_cases:
  assumes "script env a act s = (t, s', r)"
  obtains (config) t0 e where "api_key_configured env = (t0, Inl e)" "s' = s" "r = Some e"
  | (analyze) t0 c t1 e where "api_key_configured env = (t0, Inr c)"
      "analyze_section env a act s = (t1, s', Some e)" "r = Some e"
  | (report) t0 c t1 s1 t2 e where "api_key_configured env = (t0, Inr c)"
      "analyze_section env a act s = (t1, s1, None)"
      "report_section env c act s1 = (t2, s', Some e)" "r = Some e"
      "t = StPageConfig # t0 @ t1 @ t2"
  | (completed) t0 c t1 s1 t2 where "api_key_configured env = (t0, Inr c)"
      "analyze_section env a act s = (t1, s1, None)"
      "report_section env c act s1 = (t2, s', None)" "r = None"
      "t = StPageConfig # t0 @ t1 @ t2 @ fst (summary_section s')"
proof -
  obtain t0 k where k: "api_key_configured env = (t0, k)" by (cases "api_key_configured env")
  show ?thesis
  proof (cases k)
    case (Inl e)
    with assms k show ?thesis by (auto simp: script_def intro: config)
  next
    case (Inr c)
    obtain t1 s1 r1 where a1: "analyze_section env a act s = (t1, s1, r1)"
      by (cases "analyze_section env a act s")
    show ?thesis
    proof (cases r1)
      case (Some e)
      with assms k Inr a1 show ?thesis by (auto simp: script_def intro: analyze)
    next
      case None
      obtain t2 s2 r2 where a2: "report_section env c act s1 = (t2, s2, r2)"
        by (cases "report_section env c act s1")
      show ?thesis
      proof (cases r2)
        case (Some e)
        with assms k Inr a1 None a2 show ?thesis by (auto simp: script_def intro: report)
      next
        case None2: None
        with assms k Inr a1 None a2 show ?thesis
          by (auto simp: script_def summary_section_eq intro: completed)
      qed
    qed
  qed
qed

lemma demo_geocode:
  "geocode_address demo_env demo_address =
     ([HttpGet (geocode_url demo_address)],
      Inr (demo_lat, demo_lon, PStr ''Google Building 41, Mountain View, CA''))"
  by (simp add: geocode_address_def geocode_try_def demo_env_def ok_response_def
      first_match_def demo_match_def demo_lat_def demo_lon_def)

lemma demo_configured:
  "api_key_configured demo_env = ([GenaiConfigure ''secret''], Inr True)"
  by (simp add: api_key_configured_def demo_env_def)

text \<open>
  Claim C5. When the catalog request fails, the Fetcher shows an error message and returns
  an empty result set, and the run goes on as for "no events found": with the address
  resolved, the run of the Analyze action shows the error, stores the empty report next to
  the location, shows the "no recent seismic activity" message with a map of the location
  alone, and ends without an exception.
\<close>

theorem fetch_failure_gives_empty_report:
  assumes "fetch_failed env (usgs_url env la lo 100) m"
    and "geocode_address env a = (t, Inr (la, lo, name))"
    and "truthy la" and "truthy lo"
    and "api_key_configured env = (t0, Inr c)"
  shows "get_nearby_earthquakes env la lo 100 =
           ([HttpGet (usgs_url env la lo 100), StError (''USGS Earthquake API failed: '' @ m)],
            Inr [])
         \<and> StError (''USGS Earthquake API failed: '' @ m) \<in> set (fst (script env a ClickAnalyze s))
         \<and> StInfo ''No recent seismic activity found in the vicinity.''
             \<in> set (fst (script env a ClickAnalyze s))
         \<and> StMap [(la, lo)] \<in> set (fst (script env a ClickAnalyze s))
         \<and> snd (script env a ClickAnalyze s) =
             (s\<lparr>ss_lat := Some la, ss_lon := Some lo, ss_full_address := Some name,
                ss_df := Some []\<rparr>, None)"
proof -
  let ?e = "StError (''USGS Earthquake API failed: '' @ m)"
  let ?s1 = "s\<lparr>ss_lat := Some la, ss_lon := Some lo, ss_full_address := Some name,
                ss_df := Some []\<rparr>"
  have fetch: "get_nearby_earthquakes env la lo 100 =
      ([HttpGet (usgs_url env la lo 100), ?e], Inr [])"
    using assms(1) by (rule fetch_failed_empty)
  obtain t1 where t1: "analyze_section env a ClickAnalyze s = (t1, ?s1, None)" "?e \<in> set t1"
    using analyze_site_resolved [OF assms(2-4) fetch, of s]
    by (simp add: analyze_section_def)
  obtain t2 where t2: "report_section env c ClickAnalyze ?s1 = (t2, ?s1, None)"
    "StInfo ''No recent seismic activity found in the vicinity.'' \<in> set t2"
    "StMap [(la, lo)] \<in> set t2"
    by (simp add: report_section_def show_report_def session_point_def ai_section_idle)
  show ?thesis
    using fetch t1(2) t2(2,3) script_completed [OF assms(5) t1(1) t2(1)] by simp
qed

lemma usgs_down_geocode:
  "geocode_address usgs_down_env demo_address =
     ([HttpGet (geocode_url demo_address)],
      Inr (demo_lat, demo_lon, PStr ''Google Building 41, Mountain View, CA''))"
  by (simp add: geocode_address_def geocode_try_def usgs_down_env_def demo_env_def ok_response_def
      first_match_def demo_match_def demo_lat_def demo_lon_def)

lemma usgs_down_url:
  "usgs_url usgs_down_env demo_lat demo_lon 100 = usgs_url demo_env demo_lat demo_lon 100"
  by (simp add: usgs_url_def usgs_down_env_def demo_lat_def demo_lon_def)

lemma usgs_down_failed:
  "fetch_failed usgs_down_env (usgs_url usgs_down_env demo_lat demo_lon 100)
     ''Read timed out. (read timeout=10)''"
  unfolding usgs_down_url demo_usgs_url
  by (simp add: fetch_failed_def usgs_down_env_def geocode_url_def)

lemma usgs_down_configured:
  "api_key_configured usgs_down_env = ([GenaiConfigure ''secret''], Inr True)"
  by (simp add: api_key_configured_def usgs_down_env_def demo_env_def)

theorem fetch_failure_gives_empty_report_witness:
  "get_nearby_earthquakes usgs_down_env demo_lat demo_lon 100 =
     ([HttpGet (usgs_url usgs_down_env demo_lat demo_lon 100),
       StError (''USGS Earthquake API failed: '' @ ''Read timed out. (read timeout=10)'')],
      Inr [])
   \<and> StError (''USGS Earthquake API failed: '' @ ''Read timed out. (read timeout=10)'')
       \<in> set (fst (script usgs_down_env demo_address ClickAnalyze empty_session))
   \<and> StInfo ''No recent seismic activity found in the vicinity.''
       \<in> set (fst (script usgs_down_env demo_address ClickAnalyze empty_session))
   \<and> StMap [(demo_lat, demo_lon)]
       \<in> set (fst (script usgs_down_env demo_address ClickAnalyze empty_session))
   \<and> snd (script usgs_down_env demo_address ClickAnalyze empty_session) =
       (empty_session\<lparr>ss_lat := Some demo_lat, ss_lon := Some demo_lon,
          ss_full_address := Some (PStr ''Google Building 41, Mountain View, CA''),
          ss_df := Some []\<rparr>, None)"
  by (rule fetch_failure_gives_empty_report [OF usgs_down_failed usgs_down_geocode _ _
        usgs_down_configured]) (simp_all add: demo_lat_def demo_lon_def)

subsection \<open>The Narrative Generator\<close>

lemma fl_le_trans: "fl_le x y \<Longrightarrow> fl_le y z \<Longrightarrow> fl_le x z"
  by (cases x; cases y; cases z) simp_all

lemma fl_le_total: "x \<noteq> NaN \<Longrightarrow> y \<noteq> NaN \<Longrightarrow> fl_le x y \<or> fl_le y x"
  by (cases x; cases y) auto

lemma fl_le_refl: "x \<noteq> NaN \<Longrightarrow> fl_le x x"
  by (cases x) simp_all

lemma fl_max_cases: "fl_max x y = x \<or> fl_max x y = y"
  by (simp add: fl_max_def)

lemma fl_max_upper:
  assumes "x \<noteq> NaN" "y \<noteq> NaN"
  shows "fl_le x (fl_max x y)" and "fl_le y (fl_max x y)"
  using assms fl_le_total [of x y] by (auto simp: fl_max_def fl_le_refl)

lemma fold_fl_max:
  assumes "x \<noteq> NaN" and "NaN \<notin> set xs"
  shows "fold fl_max xs x \<in> set (x # xs) \<and> (\<forall>y\<in>set (x # xs). fl_le y (fold fl_max xs x))"
  using assms
proof (induction xs arbitrary: x)
  case Nil
  then show ?case by (simp add: fl_le_refl)
next
  case (Cons a xs)
  let ?b = "fl_max a x"
  have a: "a \<noteq> NaN" using Cons.prems by auto
  have b: "?b \<noteq> NaN" using fl_max_cases [of a x] Cons.prems(1) a by auto
  have ih: "fold fl_max xs ?b \<in> set (?b # xs)"
    "\<forall>y\<in>set (?b # xs). fl_le y (fold fl_max xs ?b)"
    using Cons.IH [of ?b] b Cons.prems(2) by auto
  have top: "fl_le ?b (fold fl_max xs ?b)" using ih(2) by simp
  have "fl_le x (fold fl_max xs ?b)" "fl_le a (fold fl_max xs ?b)"
    using fl_max_upper [OF a Cons.prems(1)] top by (blast intro: fl_le_trans)+
  moreover have "fold fl_max xs ?b \<in> set (x # a # xs)"
    using ih(1) fl_max_cases [of a x] by auto
  ultimately show ?case using ih(2) by simp
qed

lemma float64_column_cells:
  "map (float64_cell env) vs = map Some xs \<Longrightarrow> float64_column env vs = Some xs"
proof (induction vs arbitrary: xs)
  case Nil
  then show ?case by simp
next
  case (Cons v vs)
  then obtain x xs' where "xs = x # xs'" "float64_cell env v = Some x"
    "map (float64_cell env) vs = map Some xs'"
    by (cases xs) auto
  then show ?case using Cons.IH [of xs'] by simp
qed

lemma nanmax_all_missing: "filter (\<lambda>x. x \<noteq> NaN) xs = [] \<Longrightarrow> nanmax xs = NaN"
  by (simp add: nanmax_def)

lemma nanmax_is_maximum:
  assumes "filter (\<lambda>x. x \<noteq> NaN) xs \<noteq> []"
  shows "nanmax xs \<in> set xs \<and> nanmax xs \<noteq> NaN
         \<and> (\<forall>x\<in>set xs. x \<noteq> NaN \<longrightarrow> fl_le x (nanmax xs))"
proof -
  let ?ys = "filter (\<lambda>x. x \<noteq> NaN) xs"
  from assms obtain y rest where ys: "?ys = y # rest" by (cases ?ys) auto
  have members: "set ?ys = {x \<in> set xs. x \<noteq> NaN}" by auto
  have "y \<in> set ?ys" "set rest \<subseteq> set ?ys" using ys by auto
  then have clean: "y \<noteq> NaN" "NaN \<notin> set rest" using members by auto
  have "nanmax xs = fold fl_max rest y"
    using ys by (simp add: nanmax_def)
  moreover have "fold fl_max rest y \<in> set ?ys \<and> (\<forall>x\<in>set ?ys. fl_le x (fold fl_max rest y))"
    using fold_fl_max [OF clean] ys by simp
  ultimately show ?thesis using members by auto
qed

lemma build_prompt_float_column:
  assumes "df \<noteq> []" and "map (\<lambda>q. float64_cell env (magnitude q)) df = map Some xs"
  shows "build_prompt env name df =
           Inr (events_prompt env name (length df) (format_2f env (nanmax xs)))"
proof -
  have "map (float64_cell env) (map magnitude df) = map Some xs"
    using assms(2) by (simp add: comp_def)
  then have "series_max env (map magnitude df) = Inr (PFloat (nanmax xs))"
    by (simp add: series_max_def float64_column_cells)
  then show ?thesis
    using assms(1) by (simp add: build_prompt_def events_prompt_def)
qed

lemma build_prompt_count:
  assumes "df \<noteq> []" and "build_prompt env name df = Inr p"
  shows "\<exists>largest. p = events_prompt env name (length df) largest"
proof -
  from assms obtain v where v: "series_max env (map magnitude df) = Inr v"
    by (cases "series_max env (map magnitude df)") (auto simp: build_prompt_def)
  with assms obtain largest where "format_max_mag env v = Inr largest"
    by (cases "format_max_mag env v") (auto simp: build_prompt_def)
  with assms v show ?thesis
    by (auto simp: build_prompt_def events_prompt_def)
qed

lemma generate_ai_summary_trace:
  "build_prompt env name df = Inr p \<Longrightarrow>
   fst (generate_ai_summary env True name df) = [GenerateContent p]"
  by (simp add: generate_ai_summary_def split: sum.splits)

lemma null_quake_prompt:
  "build_prompt demo_env (PStr ''Mountain View'') [null_quake] =
     Inr (''Write a brief, one-paragraph site analysis summary for the location: Mountain View. ''
          @ ''The analysis found 1 recent seismic events nearby. ''
          @ ''The largest magnitude was nan. ''
          @ ''Briefly explain what this might mean for a site risk assessment in a professional but easy-to-understand tone.'')"
  by (simp add: build_prompt_def series_max_def nanmax_def null_quake_def demo_env_def
      str_nat.simps digit_char_def)

text \<open>
  Claim C6, as stated: for a non-empty report the prompt contains the maximum magnitude
  over all records, formatted to two decimal places. It fails for a report whose records
  have no magnitude (the catalog sends \<open>null\<close> for such events): the maximum of the
  column is \<open>nan\<close> then, and the prompt sent says "The largest magnitude was nan."
\<close>

theorem prompt_without_magnitude_counterexample:
  "magnitude null_quake = PNone
   \<and> fst (generate_ai_summary demo_env True (PStr ''Mountain View'') [null_quake]) =
       [GenerateContent
          (''Write a brief, one-paragraph site analysis summary for the location: Mountain View. ''
           @ ''The analysis found 1 recent seismic events nearby. ''
           @ ''The largest magnitude was nan. ''
           @ ''Briefly explain what this might mean for a site risk assessment in a professional but easy-to-understand tone.'')]"
  using generate_ai_summary_trace [OF null_quake_prompt] by (simp add: null_quake_def)

text \<open>
  Claim C6, amended. With the service configured, the prompt sent for an empty report is
  the template stating that no recent seismic activity was found, a positive sign for
  geological stability. For a non-empty report, every prompt that is built is the one
  sent and holds the number of records; and when the magnitudes are JSON numbers or
  nulls (\<open>xs\<close> is the magnitude column, with \<open>nan\<close> for a null) the prompt is built
  and holds the \<open>.2f\<close> rendering of the maximum over the records that have a
  magnitude -- a magnitude of the report that no other exceeds -- or of \<open>nan\<close> when
  no record has one.
\<close>

theorem prompt_states_count_and_maximum:
  "fst (generate_ai_summary env True name []) = [GenerateContent (empty_prompt env name)]
   \<and> (df \<noteq> [] \<longrightarrow> build_prompt env name df = Inr p \<longrightarrow>
        fst (generate_ai_summary env True name df) = [GenerateContent p]
        \<and> (\<exists>largest. p = events_prompt env name (length df) largest))
   \<and> (df \<noteq> [] \<longrightarrow> map (\<lambda>q. float64_cell env (magnitude q)) df = map Some xs \<longrightarrow>
        (\<exists>m. build_prompt env name df =
               Inr (events_prompt env name (length df) (format_2f env m))
             \<and> (if filter (\<lambda>x. x \<noteq> NaN) xs = [] then m = NaN
                 else m \<in> set xs \<and> m \<noteq> NaN \<and> (\<forall>x\<in>set xs. x \<noteq> NaN \<longrightarrow> fl_le x m))))"
proof (intro conjI impI)
  show "fst (generate_ai_summary env True name []) = [GenerateContent (empty_prompt env name)]"
    by (rule generate_ai_summary_trace) (simp add: build_prompt_def empty_prompt_def)
next
  assume "build_prompt env name df = Inr p"
  then show "fst (generate_ai_summary env True name df) = [GenerateContent p]"
    by (rule generate_ai_summary_trace)
next
  assume "df \<noteq> []" and "build_prompt env name df = Inr p"
  then show "\<exists>largest. p = events_prompt env name (length df) largest"
    by (rule build_prompt_count)
next
  assume df: "df \<noteq> []"
    and cells: "map (\<lambda>q. float64_cell env (magnitude q)) df = map Some xs"
  have "build_prompt env name df =
      Inr (events_prompt env name (length df) (format_2f env (nanmax xs)))"
    using df cells by (rule build_prompt_float_column)
  moreover have "if filter (\<lambda>x. x \<noteq> NaN) xs = [] then nanmax xs = NaN
      else nanmax xs \<in> set xs \<and> nanmax xs \<noteq> NaN
           \<and> (\<forall>x\<in>set xs. x \<noteq> NaN \<longrightarrow> fl_le x (nanmax xs))"
    using nanmax_all_missing [of xs] nanmax_is_maximum [of xs] by auto
  ultimately show "\<exists>m. build_prompt env name df =
        Inr (events_prompt env name (length df) (format_2f env m))
      \<and> (if filter (\<lambda>x. x \<noteq> NaN) xs = [] then m = NaN
          else m \<in> set xs \<and> m \<noteq> NaN \<and> (\<forall>x\<in>set xs. x \<noteq> NaN \<longrightarrow> fl_le x m))"
    by blast
qed

lemma demo_prompt:
  "build_prompt demo_env (PStr ''Mountain View'') [demo_quake_1, demo_quake_2] =
     Inr (events_prompt demo_env (PStr ''Mountain View'') 2 ''4.50'')"
  by (simp add: build_prompt_def series_max_def nanmax_def demo_quake_1_def demo_quake_2_def
      fl_max_def demo_env_def events_prompt_def numeral_2_eq_2)

lemma demo_prompt_text:
  "events_prompt demo_env (PStr ''Mountain View'') 2 ''4.50'' =
     ''Write a brief, one-paragraph site analysis summary for the location: Mountain View. ''
     @ ''The analysis found 2 recent seismic events nearby. ''
     @ ''The largest magnitude was 4.50. ''
     @ ''Briefly explain what this might mean for a site risk assessment in a professional but easy-to-understand tone.''"
  by (simp add: events_prompt_def str_nat.simps digit_char_def)

theorem prompt_states_count_and_maximum_witness:
  "fst (generate_ai_summary demo_env True (PStr ''Mountain View'') []) =
     [GenerateContent (empty_prompt demo_env (PStr ''Mountain View''))]
   \<and> fst (generate_ai_summary demo_env True (PStr ''Mountain View'')
            [demo_quake_1, demo_quake_2]) =
       [GenerateContent (events_prompt demo_env (PStr ''Mountain View'') 2 ''4.50'')]
   \<and> (\<exists>largest. events_prompt demo_env (PStr ''Mountain View'') 2 ''4.50'' =
          events_prompt demo_env (PStr ''Mountain View'')
            (length [demo_quake_1, demo_quake_2]) largest)
   \<and> (\<exists>m. build_prompt demo_env (PStr ''Mountain View'') [demo_quake_1, demo_quake_2] =
            Inr (events_prompt demo_env (PStr ''Mountain View'')
                   (length [demo_quake_1, demo_quake_2]) (format_2f demo_env m))
          \<and> m \<in> set [Finite (31 / 10), Finite (9 / 2)] \<and> m \<noteq> NaN
          \<and> (\<forall>x\<in>set [Finite (31 / 10), Finite (9 / 2)]. x \<noteq> NaN \<longrightarrow> fl_le x m))"
  using prompt_states_count_and_maximum [of demo_env "PStr ''Mountain View''"
      "[demo_quake_1, demo_quake_2]"
      "events_prompt demo_env (PStr ''Mountain View'') 2 ''4.50''"
      "[Finite (31 / 10), Finite (9 / 2)]"]
    demo_prompt
  by (simp add: demo_quake_1_def demo_quake_2_def)

lemma float64_cell_number_or_null:
  "number_or_null env v \<Longrightarrow> \<exists>x. float64_cell env v = Some x"
  by (cases v) (auto simp: number_or_null_def)

lemma float64_column_numbers:
  "\<forall>v\<in>set vs. number_or_null env v \<Longrightarrow> \<exists>xs. float64_column env vs = Some xs"
proof (induction vs)
  case Nil
  then show ?case by simp
next
  case (Cons v vs)
  then obtain x xs where "float64_cell env v = Some x" "float64_column env vs = Some xs"
    using float64_cell_number_or_null [of env v] by auto
  then show ?case by simp
qed

lemma build_prompt_numbers:
  assumes "\<forall>q\<in>set df. number_or_null env (magnitude q)"
  shows "\<exists>p. build_prompt env name df = Inr p"
proof -
  obtain xs where "float64_column env (map magnitude df) = Some xs"
    using float64_column_numbers [of "map magnitude df" env] assms by auto
  then have "series_max env (map magnitude df) = Inr (PFloat (nanmax xs))"
    by (simp add: series_max_def)
  then show ?thesis
    by (simp add: build_prompt_def)
qed

text \<open>
  Claim C7, as stated: for any display name and any report \<open>generate_ai_summary\<close>
  returns a string and raises nothing. The maximum and its formatting (lines 70-73)
  come before the \<open>try\<close>: for a report whose one magnitude is the string \<open>"4.5"\<close>
  the \<open>ValueError\<close> of the format leaves the function, and no service is called.
\<close>

theorem generate_ai_summary_raises_counterexample:
  "magnitude text_quake = PStr ''4.5''
   \<and> generate_ai_summary demo_env True (PStr ''Mountain View'') [text_quake] =
       ([], Inl (ValueError ''Unknown format code f for object of type str''))"
  by (simp add: generate_ai_summary_def build_prompt_def series_max_def text_quake_def)

text \<open>
  Claim C7, amended. For every display name and every report whose magnitudes are JSON
  numbers or nulls, \<open>generate_ai_summary\<close> returns a string and raises nothing:
  without the credential it returns the fixed explanation and calls no service, and when
  the service call raises an exception it returns the message that embeds the
  exception's text.
\<close>

theorem generate_ai_summary_always_text:
  assumes "\<forall>q\<in>set df. number_or_null env (magnitude q)"
  shows "generate_ai_summary env False name df =
           ([], Inr ''AI model is not configured. Please add your GOOGLE_API_KEY to the Streamlit secrets.'')
         \<and> (\<exists>text. snd (generate_ai_summary env configured name df) = Inr text)
         \<and> (\<exists>p. build_prompt env name df = Inr p
                \<and> (\<forall>e. generate_content env p = Inl e \<longrightarrow>
                        generate_ai_summary env True name df =
                          ([GenerateContent p],
                           Inr (''An error occurred with the AI model: '' @ exn_str e))))"
proof -
  obtain p where p: "build_prompt env name df = Inr p"
    using build_prompt_numbers [OF assms] by blast
  then show ?thesis
    by (auto simp: generate_ai_summary_def split: sum.splits)
qed

theorem generate_ai_summary_always_text_witness:
  "number_or_null ai_down_env (magnitude demo_quake_1)
   \<and> number_or_null ai_down_env (magnitude demo_quake_2)
   \<and> generate_ai_summary ai_down_env False (PStr ''Mountain View'') [demo_quake_1, demo_quake_2] =
       ([], Inr ''AI model is not configured. Please add your GOOGLE_API_KEY to the Streamlit secrets.'')
   \<and> (\<exists>text. snd (generate_ai_summary ai_down_env True (PStr ''Mountain View'')
                     [demo_quake_1, demo_quake_2]) = Inr text)
   \<and> (\<exists>p. generate_ai_summary ai_down_env True (PStr ''Mountain View'')
              [demo_quake_1, demo_quake_2] =
            ([GenerateContent p],
             Inr ''An error occurred with the AI model: 429 Resource has been exhausted''))"
proof -
  have numbers: "number_or_null ai_down_env (magnitude demo_quake_1)"
    "number_or_null ai_down_env (magnitude demo_quake_2)"
    by (simp_all add: number_or_null_def demo_quake_1_def demo_quake_2_def)
  then have h: "\<forall>q\<in>set [demo_quake_1, demo_quake_2]. number_or_null ai_down_env (magnitude q)"
    by simp
  have refused: "generate_content ai_down_env p =
      Inl (OtherException ''429 Resource has been exhausted'')" for p
    by (simp add: ai_down_env_def)
  show ?thesis
    using numbers refused
      generate_ai_summary_always_text [OF h, of "PStr ''Mountain View''" True]
    by auto
qed

lemma ai_down_reply:
  "generate_ai_summary ai_down_env True (PStr ''Mountain View'') [] =
     ([GenerateContent (empty_prompt ai_down_env (PStr ''Mountain View''))],
      Inr ''An error occurred with the AI model: 429 Resource has been exhausted'')"
  by (simp add: generate_ai_summary_def build_prompt_def empty_prompt_def ai_down_env_def)

subsection \<open>The session\<close>

lemma analyze_site_summary:
  "analyze_site env a s = (t, s', r) \<Longrightarrow> ss_summary s' = ss_summary s"
  by (auto simp: analyze_site_def Let_def split: prod.splits sum.splits if_splits)

lemma analyze_section_summary:
  "analyze_section env a act s = (t, s', r) \<Longrightarrow> ss_summary s' = ss_summary s"
  by (auto simp: analyze_section_def Let_def split: prod.splits if_splits
      dest: analyze_site_summary)

lemma show_report_session: "show_report env df s = (t, s', r) \<Longrightarrow> s' = s"
  by (auto simp: show_report_def Let_def split: if_splits sum.splits)

lemma ai_section_idle_session:
  "act \<noteq> ClickGenerate \<Longrightarrow> ai_section env c act df s = (t, s', r) \<Longrightarrow> s' = s"
  by (simp add: ai_section_idle)

lemma report_section_idle_session:
  assumes "act \<noteq> ClickGenerate" and "report_section env c act s = (t, s', r)"
  shows "s' = s"
proof (cases "ss_df s")
  case None
  with assms(2) show ?thesis by (simp add: report_section_def)
next
  case (Some df)
  with assms(2) have "then_run (show_report env df s) (ai_section env c act df) = (t, s', r)"
    by (simp add: report_section_def)
  then show ?thesis
    by (cases rule: then_run_cases)
      (auto dest: show_report_session ai_section_idle_session [OF assms(1)])
qed

text \<open>
  Claim C9. A run caused by anything but the Generate button, the Analyze action
  included, leaves the narrative text of the session as it was; and a run that reaches
  its end with narrative text in the session renders that text as its last output,
  whether the text was generated in this run or before.
\<close>

theorem analysis_keeps_narrative:
  assumes "script env a act s = (t, s', r)"
  shows "(act \<noteq> ClickGenerate \<longrightarrow> ss_summary s' = ss_summary s)
         \<and> (r = None \<longrightarrow> ss_summary s' = Some m \<longrightarrow> t \<noteq> [] \<and> last t = StMarkdown m)"
  using assms
proof (cases rule: script_cases)
  case (config t0 e)
  then show ?thesis by simp
next
  case (analyze t0 c t1 e)
  then show ?thesis by (auto dest: analyze_section_summary)
next
  case (report t0 c t1 s1 t2 e)
  then show ?thesis
    by (auto dest: analyze_section_summary report_section_idle_session)
next
  case (completed t0 c t1 s1 t2)
  then show ?thesis
    by (auto simp: summary_section_eq dest: analyze_section_summary report_section_idle_session)
qed

theorem analysis_keeps_narrative_witness:
  "ClickAnalyze \<noteq> ClickGenerate
   \<and> ss_summary (fst (snd (script demo_env demo_address ClickAnalyze narrated_session))) =
       ss_summary narrated_session
   \<and> snd (snd (script demo_env demo_address ClickAnalyze narrated_session)) = None
   \<and> fst (script demo_env demo_address ClickAnalyze narrated_session) \<noteq> []
   \<and> last (fst (script demo_env demo_address ClickAnalyze narrated_session)) =
       StMarkdown ''Two moderate events were recorded near the site.''"
proof -
  obtain t where run: "script demo_env demo_address ClickAnalyze narrated_session =
      (t, narrated_session\<lparr>ss_lat := Some demo_lat, ss_lon := Some demo_lon,
            ss_full_address := Some (PStr ''Google Building 41, Mountain View, CA''),
            ss_df := Some [demo_quake_1, demo_quake_2]\<rparr>, None)"
    using script_analysis_completed [OF demo_configured demo_geocode _ _ demo_fetch]
    by (auto simp: demo_lat_def demo_lon_def)
  have kept: "ss_summary narrated_session =
      Some ''Two moderate events were recorded near the site.''"
    by (simp add: narrated_session_def)
  show ?thesis
    using analysis_keeps_narrative [OF run, of "''Two moderate events were recorded near the site.''"]
      kept
    by (simp add: run)
qed

lemma quiet_append [simp]: "quiet (t @ t') = (quiet t \<and> quiet t')"
  by (auto simp: quiet_def)

lemma quiet_Nil [simp]: "quiet []"
  by (simp add: quiet_def)

lemma quiet_Cons [simp]: "quiet (ev # t) = (\<not> generation_event ev \<and> quiet t)"
  by (simp add: quiet_def)

lemma geocode_address_quiet: "geocode_address env a = (t, r) \<Longrightarrow> quiet t"
  by (auto simp: geocode_address_def Let_def split: sum.splits option.splits exn.splits)

lemma get_nearby_earthquakes_quiet: "get_nearby_earthquakes env la lo km = (t, r) \<Longrightarrow> quiet t"
  by (auto simp: get_nearby_earthquakes_def Let_def split: sum.splits exn.splits)

lemma analyze_site_quiet:
  assumes "analyze_site env a s = (t, s', r)"
  shows "quiet t"
proof -
  obtain tg rg where g: "geocode_address env a = (tg, rg)" by (cases "geocode_address env a")
  have qg: "quiet tg" using g by (rule geocode_address_quiet)
  show ?thesis
  proof (cases rg)
    case (Inl e)
    with assms g qg show ?thesis by (simp add: analyze_site_def)
  next
    case (Inr triple)
    obtain la lo name where triple: "triple = (la, lo, name)" by (cases triple)
    obtain tf rf where f: "get_nearby_earthquakes env la lo 100 = (tf, rf)"
      by (cases "get_nearby_earthquakes env la lo 100")
    have qf: "quiet tf" using f by (rule get_nearby_earthquakes_quiet)
    from assms g Inr triple f qg qf show ?thesis
      by (auto simp: analyze_site_def Let_def split: if_splits sum.splits)
  qed
qed

lemma analyze_section_quiet: "analyze_section env a act s = (t, s', r) \<Longrightarrow> quiet t"
  by (auto simp: analyze_section_def Let_def split: if_splits prod.splits dest: analyze_site_quiet)

lemma show_report_quiet: "show_report env df s = (t, s', r) \<Longrightarrow> quiet t"
  by (auto simp: show_report_def Let_def split: if_splits sum.splits)

lemma ai_section_disabled:
  "ai_section env False act df s = ([StSubheader ''AI-Powered Summary'', disabled_warning], s, None)"
  by (simp add: ai_section_def disabled_warning_def)

lemma report_section_disabled:
  assumes "report_section env False act s = (t, s', r)"
  shows "quiet t \<and> s' = s \<and> (r = None \<longrightarrow> ss_df s \<noteq> None \<longrightarrow> disabled_warning \<in> set t)"
proof (cases "ss_df s")
  case None
  with assms show ?thesis by (simp add: report_section_def)
next
  case (Some df)
  with assms have "then_run (show_report env df s) (ai_section env False act df) = (t, s', r)"
    by (simp add: report_section_def)
  then show ?thesis
    by (cases rule: then_run_cases)
      (auto simp: ai_section_disabled disabled_warning_def
        dest: show_report_quiet show_report_session)
qed

lemma config_absent:
  "secrets env ''GOOGLE_API_KEY'' = Inl (KeyError k) \<Longrightarrow> api_key_configured env = ([], Inr False)"
  by (simp add: api_key_configured_def)

lemma config_except_trace: "config_except t e = (t', r) \<Longrightarrow> t' = t"
  by (cases e) auto

lemma api_key_configured_quiet: "api_key_configured env = (t0, r) \<Longrightarrow> quiet t0"
  by (auto simp: api_key_configured_def split: sum.splits option.splits
      dest!: config_except_trace)

lemma summary_section_quiet: "quiet (fst (summary_section s))"
  by (simp add: summary_section_eq split: option.splits)

lemma script_disabled:
  assumes "api_key_configured env = (t0, Inr False)"
    and "script env a act s = (t, s', r)"
  shows "quiet t \<and> (r = None \<longrightarrow> ss_df s' \<noteq> None \<longrightarrow> disabled_warning \<in> set t)"
proof -
  have q0: "quiet t0"
    using assms(1) by (rule api_key_configured_quiet)
  from assms(2) show ?thesis
  proof (cases rule: script_cases)
    case (config t0' e)
    with assms(1) show ?thesis by simp
  next
    case (analyze t0' c t1 e)
    obtain ta sa ra where a: "analyze_section env a act s = (ta, sa, ra)"
      by (cases "analyze_section env a act s")
    with assms analyze show ?thesis
      by (auto simp: script_def q0 dest: analyze_section_quiet)
  next
    case (report t0' c t1 s1 t2 e)
    with assms(1) q0 show ?thesis
      by (auto dest: analyze_section_quiet report_section_disabled)
  next
    case (completed t0' c t1 s1 t2)
    with assms(1) q0 summary_section_quiet [of s'] show ?thesis
      by (auto dest!: analyze_section_quiet report_section_disabled)
  qed
qed

lemma script_stopped_at_config:
  "api_key_configured env = (t0, Inl e) \<Longrightarrow> script env a act s = (StPageConfig # t0, s, Some e)"
  by (simp add: script_def)

lemma script_unconfigured_quiet:
  assumes "snd (api_key_configured env) \<noteq> Inr True"
    and "script env a act s = (t, s', r)"
  shows "quiet t"
proof -
  obtain t0 k where k: "api_key_configured env = (t0, k)" by (cases "api_key_configured env")
  have q0: "quiet t0" using k by (rule api_key_configured_quiet)
  show ?thesis
  proof (cases k)
    case (Inl e)
    with k assms(2) q0 show ?thesis by (auto simp: script_stopped_at_config)
  next
    case (Inr c)
    with k assms(1) have "api_key_configured env = (t0, Inr False)" by simp
    then show ?thesis using script_disabled assms(2) by blast
  qed
qed

lemma run_session_unconfigured:
  assumes "snd (api_key_configured env) \<noteq> Inr True"
  shows "quiet (fst (run_session env s acts))"
proof (induction acts arbitrary: s)
  case Nil
  show ?case by simp
next
  case (Cons x acts)
  obtain a act where x: "x = (a, act)" by (cases x)
  obtain t s' r where run: "script env a act s = (t, s', r)" by (cases "script env a act s")
  obtain t' s'' where rest: "run_session env s' acts = (t', s'')"
    by (cases "run_session env s' acts")
  have "quiet t" using assms run by (rule script_unconfigured_quiet)
  then show ?case
    using Cons.IH [of s'] x run rest by simp
qed

text \<open>
  What holds of claim C10. Whenever the flag is not set, be it that the block of lines
  16-20 turned it off or that the block raised, no sequence of interactions makes the
  program call the generative-language service or create the Generate button
  (\<open>run_session_unconfigured\<close>). And when the secrets file has no entry for the key,
  every run that ends with a report in the session has shown the warning.
\<close>

lemma missing_key_shows_warning:
  assumes "secrets env ''GOOGLE_API_KEY'' = Inl (KeyError k)"
  shows "(\<forall>ev\<in>set (fst (run_session env s acts)). \<not> generation_event ev)
         \<and> (script env a act s = (t, s', None) \<longrightarrow> ss_df s' \<noteq> None \<longrightarrow>
              disabled_warning \<in> set t)"
  using run_session_unconfigured [of env s acts]
    script_disabled [OF config_absent [OF assms], of a act s t s' None]
  by (auto simp: quiet_def config_absent [OF assms])

lemma no_key_geocode:
  "geocode_address no_key_env demo_address =
     ([HttpGet (geocode_url demo_address)],
      Inr (demo_lat, demo_lon, PStr ''Google Building 41, Mountain View, CA''))"
  by (simp add: geocode_address_def geocode_try_def no_key_env_def demo_env_def ok_response_def
      first_match_def demo_match_def demo_lat_def demo_lon_def)

lemma no_key_fetch:
  "get_nearby_earthquakes no_key_env demo_lat demo_lon 100 =
     ([HttpGet (usgs_url demo_env demo_lat demo_lon 100)], Inr [demo_quake_1, demo_quake_2])"
proof -
  have url: "usgs_url no_key_env demo_lat demo_lon 100 = usgs_url demo_env demo_lat demo_lon 100"
    by (simp add: usgs_url_def no_key_env_def demo_lat_def demo_lon_def)
  have reply: "requests_get no_key_env (usgs_url demo_env demo_lat demo_lon 100) =
      Inr (ok_response demo_catalog)"
    using demo_usgs_reply by (simp add: no_key_env_def)
  have records: "map (spec_record no_key_env) [demo_feature_1, demo_feature_2] =
      map Some [demo_quake_1, demo_quake_2]"
    using demo_spec_records by (simp add: spec_record_def calendar_time_def no_key_env_def)
  show ?thesis
    using fetch_try_features [OF reply _ _ _ records, of demo_catalog]
    by (simp add: get_nearby_earthquakes_def url ok_response_def demo_catalog_def)
qed

lemma no_key_absent:
  "secrets no_key_env ''GOOGLE_API_KEY'' = Inl (KeyError ''GOOGLE_API_KEY'')"
  by (simp add: no_key_env_def)

lemma missing_key_run:
  "filter generation_event (fst (run_session no_key_env empty_session
          [(demo_address, ClickAnalyze), (demo_address, ClickGenerate), (demo_address, Rerun)])) = []
   \<and> snd (snd (script no_key_env demo_address ClickAnalyze empty_session)) = None
   \<and> ss_df (fst (snd (script no_key_env demo_address ClickAnalyze empty_session))) =
       Some [demo_quake_1, demo_quake_2]
   \<and> disabled_warning \<in> set (fst (script no_key_env demo_address ClickAnalyze empty_session))"
proof -
  obtain t where run: "script no_key_env demo_address ClickAnalyze empty_session =
      (t, empty_session\<lparr>ss_lat := Some demo_lat, ss_lon := Some demo_lon,
            ss_full_address := Some (PStr ''Google Building 41, Mountain View, CA''),
            ss_df := Some [demo_quake_1, demo_quake_2]\<rparr>, None)"
    using script_analysis_completed [OF config_absent [OF no_key_absent] no_key_geocode _ _
        no_key_fetch]
    by (auto simp: demo_lat_def demo_lon_def)
  show ?thesis
    using missing_key_shows_warning [OF no_key_absent, of empty_session
        "[(demo_address, ClickAnalyze), (demo_address, ClickGenerate), (demo_address, Rerun)]"
        demo_address ClickAnalyze t
        "empty_session\<lparr>ss_lat := Some demo_lat, ss_lon := Some demo_lon,
            ss_full_address := Some (PStr ''Google Building 41, Mountain View, CA''),
            ss_df := Some [demo_quake_1, demo_quake_2]\<rparr>"]
    by (simp add: run filter_empty_conv)
qed

lemma no_secrets_configured:
  "api_key_configured no_secrets_env = ([], Inl (FileNotFoundError ''No secrets files found.''))"
  by (simp add: api_key_configured_def no_secrets_env_def)

text \<open>
  Claim C10. When the credential is absent, the narrative control is replaced with the
  disabled-state warning, and no interaction ever calls the generative-language service.
  Lines 16-20 catch \<open>KeyError\<close> and \<open>AttributeError\<close> only. With no secrets file,
  \<open>st.secrets["GOOGLE_API_KEY"]\<close> raises \<open>FileNotFoundError\<close>, which leaves the
  block: every run stops there, after \<open>st.set_page_config\<close>, whatever the
  interaction, and although the session holds a report neither the report nor the warning
  is shown.
\<close>

theorem no_secrets_file_stops_every_run:
  "ss_df narrated_session = Some [demo_quake_1, demo_quake_2]
   \<and> script no_secrets_env demo_address Rerun narrated_session =
       ([StPageConfig], narrated_session, Some (FileNotFoundError ''No secrets files found.''))
   \<and> script no_secrets_env demo_address ClickAnalyze narrated_session =
       ([StPageConfig], narrated_session, Some (FileNotFoundError ''No secrets files found.''))
   \<and> script no_secrets_env demo_address ClickGenerate narrated_session =
       ([StPageConfig], narrated_session, Some (FileNotFoundError ''No secrets files found.''))"
  by (simp add: script_stopped_at_config [OF no_secrets_configured] narrated_session_def)

end
